theory Spec2Isabelle
  imports Main "HOL-Library.Word"
begin

section \<open>The descriptor layer of gfapi (fd.go)\<close>

text \<open>
  The file fd.go wraps the primitives of the GlusterFS client library. Every primitive
  is called through cgo in its two-result form \<^verbatim>\<open>ret, err := C.f(...)\<close>: cgo clears
  the C variable errno, makes the call, and afterwards turns errno into the Go error
  (nil when errno is 0, the value \<^verbatim>\<open>syscall.Errno(errno)\<close> otherwise). The return
  code and the error are therefore two independent outputs of a primitive. A primitive
  that fails returns a negative code and sets errno; one that succeeds may still leave a
  value in errno that the library has set on the way, which is why several operations
  test the return code before they pass the error on.

  Target: Linux on a 64-bit machine (Go int and C long, ssize_t, off_t and size_t have
  64 bits; C int and mode_t have 32 bits).
\<close>

subsection \<open>Values shared by all operations\<close>

type_synonym byte = "8 word"

text \<open>The Go error value: \<open>None\<close> is nil, \<open>Some (Errno e)\<close> is \<^verbatim>\<open>syscall.Errno(e)\<close>.\<close>

datatype error = Errno int

text \<open>What cgo makes of errno after a call.\<close>

definition cgo_err :: "int \<Rightarrow> error option" where
  "cgo_err errno = (if errno \<noteq> 0 then Some (Errno errno) else None)"

text \<open>A run-time panic of Go: here only the bounds check of an index expression.\<close>

datatype panic = IndexOutOfRange nat nat

text \<open>
  The addresses handed to the primitives: the null pointer, the address of the package
  variable \<^verbatim>\<open>_zero\<close>, and the address of an element of the caller's slice
  (the slice's bytes and the element's index, so that the service can read the bytes).
\<close>

datatype pointer = NilPtr | ZeroVarAddr | SliceElemAddr "byte list" nat

text \<open>
  The index expression \<^verbatim>\<open>&b[i]\<close> on a slice: Go checks the index against the
  length and panics when it is out of range.
\<close>

definition slice_elem_addr :: "byte list \<Rightarrow> nat \<Rightarrow> panic + pointer" where
  "slice_elem_addr b i =
     (if i < length b then Inr (SliceElemAddr b i) else Inl (IndexOutOfRange i (length b)))"

text \<open>\<^verbatim>\<open>string(name)\<close> for a byte slice: the same bytes, as a string.\<close>

definition go_string :: "byte list \<Rightarrow> string" where
  "go_string bs = map (\<lambda>b. char_of (unat b)) bs"

subsection \<open>Stat and its native form\<close>

text \<open>
  A \<^verbatim>\<open>time.Time\<close> of Go's library, as far as this file reads it: \<^verbatim>\<open>Unix()\<close>
  gives the seconds since the epoch (int64), \<^verbatim>\<open>Nanosecond()\<close> the nanoseconds within
  the second, which the library keeps as an int32 in the range 0 to 999999999 and returns
  as an int.
\<close>

record Time =
  wall_sec :: "64 word"
  wall_nsec :: "32 word"

definition Unix :: "Time \<Rightarrow> 64 word" where
  "Unix t = wall_sec t"

definition Nanosecond :: "Time \<Rightarrow> 64 word" where
  "Nanosecond t = scast (wall_nsec t)"

record Stat =
  mask :: "64 word"
  attributes :: "64 word"
  attributesMask :: "64 word"
  atime :: Time
  btime :: Time
  ctime :: Time
  mtime :: Time
  ino :: "64 word"
  size :: "64 word"
  blocks :: "64 word"
  rdevMajor :: "32 word"
  rdevMinor :: "32 word"
  devMajor :: "32 word"
  devMinor :: "32 word"
  blkksize :: "64 word"
  nlink :: "64 word"
  uid :: "32 word"
  gid :: "32 word"
  mode :: "32 word"

record timespec =
  tv_sec :: "64 word"
  tv_nsec :: "64 word"

text \<open>
  \<^verbatim>\<open>struct glfs_stat\<close> of the GlusterFS header glfs.h, which is not part of the
  repository; the fields are the ones the header declares.
\<close>

record glfs_stat =
  glfs_st_mask :: "64 word"
  glfs_st_attributes :: "64 word"
  glfs_st_attributes_mask :: "64 word"
  glfs_st_atime :: timespec
  glfs_st_btime :: timespec
  glfs_st_ctime :: timespec
  glfs_st_mtime :: timespec
  glfs_st_ino :: "64 word"
  glfs_st_size :: "64 word"
  glfs_st_blocks :: "64 word"
  glfs_st_rdev_major :: "32 word"
  glfs_st_rdev_minor :: "32 word"
  glfs_st_dev_major :: "32 word"
  glfs_st_dev_minor :: "32 word"
  glfs_st_blksize :: "64 word"
  glfs_st_nlink :: "64 word"
  glfs_st_uid :: "32 word"
  glfs_st_gid :: "32 word"
  glfs_st_mode :: "32 word"

definition zero_timespec :: timespec where
  "zero_timespec = \<lparr>tv_sec = 0, tv_nsec = 0\<rparr>"

text \<open>
  \<^verbatim>\<open>ToGlfsStat\<close>. The receiver is a pointer, \<open>None\<close> when it is nil. The composite
  literal names seventeen fields; the two it does not name, \<^verbatim>\<open>glfs_st_mtime\<close> and
  \<^verbatim>\<open>glfs_st_blksize\<close>, get Go's zero value. The conversions between integer types
  of the same width keep the bits.
\<close>

definition ToGlfsStat :: "Stat option \<Rightarrow> glfs_stat option" where
  "ToGlfsStat s =
     (case s of
        None \<Rightarrow> None
      | Some s \<Rightarrow> Some
          \<lparr>glfs_st_mask = mask s,
           glfs_st_attributes = attributes s,
           glfs_st_attributes_mask = attributesMask s,
           glfs_st_atime = \<lparr>tv_sec = Unix (atime s), tv_nsec = Nanosecond (atime s)\<rparr>,
           glfs_st_btime = \<lparr>tv_sec = Unix (btime s), tv_nsec = Nanosecond (btime s)\<rparr>,
           glfs_st_ctime = \<lparr>tv_sec = Unix (ctime s), tv_nsec = Nanosecond (ctime s)\<rparr>,
           glfs_st_mtime = zero_timespec,
           glfs_st_ino = ino s,
           glfs_st_size = size s,
           glfs_st_blocks = blocks s,
           glfs_st_rdev_major = rdevMajor s,
           glfs_st_rdev_minor = rdevMinor s,
           glfs_st_dev_major = devMajor s,
           glfs_st_dev_minor = devMinor s,
           glfs_st_blksize = 0,
           glfs_st_nlink = nlink s,
           glfs_st_uid = uid s,
           glfs_st_gid = gid s,
           glfs_st_mode = mode s\<rparr>)"

subsection \<open>The primitives\<close>

text \<open>
  A call of a primitive of the client library on the descriptor \<^verbatim>\<open>fd.fd\<close>, with the
  arguments fd.go passes. A length is the \<^verbatim>\<open>len\<close> of a slice (never negative, kept
  by the conversion to size_t). \<^verbatim>\<open>C.CString(attr)\<close> copies the attribute name for
  the call and \<^verbatim>\<open>C.free\<close> releases the copy afterwards; the request carries the name.
\<close>

datatype request =
    Glfs_fchmod "32 word"
  | Glfs_fstat
  | Glfs_fsync "glfs_stat option" "glfs_stat option"
  | Glfs_ftruncate "64 word" "glfs_stat option" "glfs_stat option"
  | Glfs_pread pointer nat "64 word" "32 word" "glfs_stat option"
  | Glfs_pwrite pointer nat "64 word" "32 word" "glfs_stat option" "glfs_stat option"
  | Glfs_read pointer nat "32 word"
  | Glfs_write pointer nat "32 word"
  | Glfs_lseek "64 word" "32 word"
  | Glfs_fallocate "32 word" "64 word" "64 word"
  | Glfs_fgetxattr string pointer nat
  | Glfs_fsetxattr string pointer nat "32 word"
  | Glfs_fremovexattr string

text \<open>
  The remote service behind the descriptor is a state machine of an arbitrary state type
  \<open>'s\<close>: a request in a state gives the return code (the signed value of the C int,
  ssize_t or off_t; the conversions to Go's int and int64 keep it), the value of errno
  after the call, and the next state. What the service writes into the caller's buffers
  is not part of the model.
\<close>

type_synonym 's glfs = "request \<Rightarrow> 's \<Rightarrow> (int \<times> int) \<times> 's"

text \<open>The same service, with every request it receives appended to a log.\<close>

definition logged :: "'s glfs \<Rightarrow> (request list \<times> 's) glfs" where
  "logged glfs req ls =
     (case ls of (log, s) \<Rightarrow>
        (case glfs req s of (r, s') \<Rightarrow> (r, (log @ [req], s'))))"

subsection \<open>Operations on a descriptor\<close>

definition Fchmod :: "'s glfs \<Rightarrow> 32 word \<Rightarrow> 's \<Rightarrow> error option \<times> 's" where
  "Fchmod glfs md s =
     (case glfs (Glfs_fchmod md) s of ((ret, errno), s') \<Rightarrow>
        (cgo_err errno, s'))"

definition Fstat :: "'s glfs \<Rightarrow> 's \<Rightarrow> error option \<times> 's" where
  "Fstat glfs s =
     (case glfs Glfs_fstat s of ((ret, errno), s') \<Rightarrow>
        (if ret < 0 then (cgo_err errno, s') else (None, s')))"

definition Fsync ::
  "'s glfs \<Rightarrow> glfs_stat option \<Rightarrow> glfs_stat option \<Rightarrow> 's \<Rightarrow> error option \<times> 's" where
  "Fsync glfs prestat poststat s =
     (case glfs (Glfs_fsync prestat poststat) s of ((ret, errno), s') \<Rightarrow>
        (if ret < 0 then (cgo_err errno, s') else (None, s')))"

definition Ftruncate ::
  "'s glfs \<Rightarrow> 64 word \<Rightarrow> glfs_stat option \<Rightarrow> glfs_stat option \<Rightarrow> 's \<Rightarrow> error option \<times> 's" where
  "Ftruncate glfs sz prestat poststat s =
     (case glfs (Glfs_ftruncate sz prestat poststat) s of ((ret, errno), s') \<Rightarrow>
        (cgo_err errno, s'))"

text \<open>
  \<^verbatim>\<open>Pread\<close> and \<^verbatim>\<open>Pwrite\<close> evaluate \<^verbatim>\<open>&b[0]\<close> while building the arguments,
  before the primitive is called: a panic there leaves the service untouched.
\<close>

definition Pread ::
  "'s glfs \<Rightarrow> byte list \<Rightarrow> 64 word \<Rightarrow> glfs_stat option \<Rightarrow> 's
     \<Rightarrow> panic + ((int \<times> error option) \<times> 's)" where
  "Pread glfs b off poststat s =
     (case slice_elem_addr b 0 of
        Inl p \<Rightarrow> Inl p
      | Inr p0 \<Rightarrow>
          (case glfs (Glfs_pread p0 (length b) off 0 poststat) s of ((n, errno), s') \<Rightarrow>
             Inr ((n, cgo_err errno), s')))"

definition Pwrite ::
  "'s glfs \<Rightarrow> byte list \<Rightarrow> 64 word \<Rightarrow> glfs_stat option \<Rightarrow> glfs_stat option \<Rightarrow> 's
     \<Rightarrow> panic + ((int \<times> error option) \<times> 's)" where
  "Pwrite glfs b off prestat poststat s =
     (case slice_elem_addr b 0 of
        Inl p \<Rightarrow> Inl p
      | Inr p0 \<Rightarrow>
          (case glfs (Glfs_pwrite p0 (length b) off 0 prestat poststat) s of ((n, errno), s') \<Rightarrow>
             Inr ((n, cgo_err errno), s')))"

text \<open>
  \<^verbatim>\<open>Read\<close> and \<^verbatim>\<open>Write\<close>: \<open>p0\<close> is the address of the first byte when the slice
  has one and the address of \<^verbatim>\<open>_zero\<close> otherwise; the named result \<open>err\<close> stays nil
  unless \<open>n\<close> is negative.
\<close>

definition Read ::
  "'s glfs \<Rightarrow> byte list \<Rightarrow> 's \<Rightarrow> panic + ((int \<times> error option) \<times> 's)" where
  "Read glfs b s =
     (case (if length b > 0 then slice_elem_addr b 0 else Inr ZeroVarAddr) of
        Inl p \<Rightarrow> Inl p
      | Inr p0 \<Rightarrow>
          (case glfs (Glfs_read p0 (length b) 0) s of ((ret, e1), s') \<Rightarrow>
             (let n = ret;
                  err = (if n < 0 then cgo_err e1 else None)
              in Inr ((n, err), s'))))"

definition Write ::
  "'s glfs \<Rightarrow> byte list \<Rightarrow> 's \<Rightarrow> panic + ((int \<times> error option) \<times> 's)" where
  "Write glfs b s =
     (case (if length b > 0 then slice_elem_addr b 0 else Inr ZeroVarAddr) of
        Inl p \<Rightarrow> Inl p
      | Inr p0 \<Rightarrow>
          (case glfs (Glfs_write p0 (length b) 0) s of ((ret, e1), s') \<Rightarrow>
             (let n = ret;
                  err = (if n < 0 then cgo_err e1 else None)
              in Inr ((n, err), s'))))"

text \<open>\<^verbatim>\<open>C.int(x)\<close> for a Go int keeps the low 32 bits.\<close>

definition lseek :: "'s glfs \<Rightarrow> 64 word \<Rightarrow> 64 word \<Rightarrow> 's \<Rightarrow> (int \<times> error option) \<times> 's" where
  "lseek glfs offset whence s =
     (case glfs (Glfs_lseek offset (ucast whence)) s of ((ret, errno), s') \<Rightarrow>
        ((ret, cgo_err errno), s'))"

definition Fallocate ::
  "'s glfs \<Rightarrow> 64 word \<Rightarrow> 64 word \<Rightarrow> 64 word \<Rightarrow> 's \<Rightarrow> error option \<times> 's" where
  "Fallocate glfs md offset len s =
     (case glfs (Glfs_fallocate (ucast md) offset len) s of ((ret, errno), s') \<Rightarrow>
        (let err = cgo_err errno;
             err = (if ret = 0 then None else err)
         in (err, s')))"

definition Fgetxattr ::
  "'s glfs \<Rightarrow> string \<Rightarrow> byte list \<Rightarrow> 's \<Rightarrow> panic + ((int \<times> error option) \<times> 's)" where
  "Fgetxattr glfs attr dest s =
     (case (if length dest \<le> 0 then Inr (NilPtr, 0)
            else (case slice_elem_addr dest 0 of
                    Inl p \<Rightarrow> Inl p
                  | Inr p0 \<Rightarrow> Inr (p0, length dest))) of
        Inl p \<Rightarrow> Inl p
      | Inr (target, len) \<Rightarrow>
          (case glfs (Glfs_fgetxattr attr target len) s of ((ret, errno), s') \<Rightarrow>
             (if ret \<ge> 0 then Inr ((ret, None), s')
              else Inr ((ret, cgo_err errno), s'))))"

definition Fsetxattr ::
  "'s glfs \<Rightarrow> string \<Rightarrow> byte list \<Rightarrow> 64 word \<Rightarrow> 's \<Rightarrow> panic + (error option \<times> 's)" where
  "Fsetxattr glfs attr data flags s =
     (case slice_elem_addr data 0 of
        Inl p \<Rightarrow> Inl p
      | Inr p0 \<Rightarrow>
          (case glfs (Glfs_fsetxattr attr p0 (length data) (ucast flags)) s of
             ((ret, errno), s') \<Rightarrow>
               (let err = cgo_err errno;
                    err = (if ret = 0 then None else err)
                in Inr (err, s'))))"

definition Fremovexattr :: "'s glfs \<Rightarrow> string \<Rightarrow> 's \<Rightarrow> error option \<times> 's" where
  "Fremovexattr glfs attr s =
     (case glfs (Glfs_fremovexattr attr) s of ((ret, errno), s') \<Rightarrow>
        (let err = cgo_err errno;
             err = (if ret = 0 then None else err)
         in (err, s')))"

subsection \<open>Directory entries\<close>

text \<open>
  \<^verbatim>\<open>syscall.Dirent\<close> on Linux. \<^verbatim>\<open>Name\<close> is the array \<^verbatim>\<open>[256]int8\<close>; the
  model keeps it as a list, so that the loop below is defined for every length, and
  states the length where a theorem needs it.
\<close>

record Dirent =
  Ino :: "64 word"
  Off :: "64 word"
  Reclen :: "16 word"
  Type :: byte
  Name :: "byte list"

text \<open>
  The loop of \<^verbatim>\<open>direntName\<close>: \<open>i\<close> is the index of the range clause, the list holds
  the elements from \<open>i\<close> on, \<open>name\<close> is the slice built so far.
\<close>

fun direntName_loop :: "nat \<Rightarrow> byte list \<Rightarrow> byte list \<Rightarrow> byte list" where
  "direntName_loop i [] name = name"
| "direntName_loop i (c # cs) name =
     (if c = 0 \<or> i > 255 then name else direntName_loop (i + 1) cs (name @ [c]))"

definition direntName :: "Dirent \<Rightarrow> string" where
  "direntName dirent = go_string (direntName_loop 0 (Name dirent) [])"

subsection \<open>Directory enumeration\<close>

text \<open>
  The two enumeration primitives return a pointer to the next entry (\<open>None\<close> for the
  null pointer) and leave errno; \<^verbatim>\<open>glfs_readdirplus\<close> also writes the entry's
  attributes through \<^verbatim>\<open>statP\<close>, so it takes the buffer's contents and returns the
  new ones. The cursor is part of the service's state. \<^verbatim>\<open>syscall.Stat_t\<close> is a type
  of Go's library and stays a type variable \<open>'st\<close>.
\<close>

type_synonym 's glfs_readdir = "'s \<Rightarrow> (Dirent option \<times> int) \<times> 's"

type_synonym ('s, 'st) glfs_readdirplus = "'st \<Rightarrow> 's \<Rightarrow> (Dirent option \<times> 'st \<times> int) \<times> 's"

text \<open>
  The loop \<^verbatim>\<open>for i := 0; n == 0 || i < n; i++\<close> of \<^verbatim>\<open>Readdirnames\<close>, from the
  test of its condition on. Nothing bounds the number of rounds when \<open>n\<close> is 0, so the
  result is an option: \<open>None\<close> when the loop never ends. With \<open>n = 0\<close> the counter is
  never read, and with \<open>n > 0\<close> it stays below \<open>n\<close>, so it is a mathematical integer.
  A nil slice is the empty list.
\<close>

partial_function (option) Readdirnames_loop ::
  "'s glfs_readdir \<Rightarrow> int \<Rightarrow> int \<Rightarrow> string list \<Rightarrow> 's
     \<Rightarrow> ((string list \<times> error option) \<times> 's) option" where
  "Readdirnames_loop glfs_readdir n i names s =
     (if n = 0 \<or> i < n then
        (case glfs_readdir s of ((d, errno), s') \<Rightarrow>
           (case cgo_err errno of
              Some err \<Rightarrow> Some (([], Some err), s')
            | None \<Rightarrow>
                (case d of
                   None \<Rightarrow> Some ((names, None), s')
                 | Some dirent \<Rightarrow>
                     Readdirnames_loop glfs_readdir n (i + 1)
                       (names @ [direntName dirent]) s')))
      else Some ((names, None), s))"

definition Readdirnames ::
  "'s glfs_readdir \<Rightarrow> int \<Rightarrow> 's \<Rightarrow> ((string list \<times> error option) \<times> 's) option" where
  "Readdirnames glfs_readdir n s = Readdirnames_loop glfs_readdir n 0 [] s"

text \<open>
  \<^verbatim>\<open>Readdir\<close> has the same loop around \<^verbatim>\<open>glfs_readdirplus\<close>, with the one variable
  \<open>stat\<close> that every round passes to the primitive. \<^verbatim>\<open>fileInfoFromStat\<close> is defined
  in another file of the package; it is the parameter \<open>fileInfoFromStat\<close>, a function
  of the name and of the attributes the buffer holds when it is called. \<open>stat0\<close> is the
  zero value of \<^verbatim>\<open>syscall.Stat_t\<close>.
\<close>

partial_function (option) Readdir_loop ::
  "('s, 'st) glfs_readdirplus \<Rightarrow> ('st \<Rightarrow> string \<Rightarrow> 'fi) \<Rightarrow> int \<Rightarrow> int \<Rightarrow> 'st \<Rightarrow> 'fi list \<Rightarrow> 's
     \<Rightarrow> (('fi list \<times> error option) \<times> 's) option" where
  "Readdir_loop glfs_readdirplus fileInfoFromStat n i stat files s =
     (if n = 0 \<or> i < n then
        (case glfs_readdirplus stat s of ((d, stat', errno), s') \<Rightarrow>
           (case cgo_err errno of
              Some err \<Rightarrow> Some (([], Some err), s')
            | None \<Rightarrow>
                (case d of
                   None \<Rightarrow> Some ((files, None), s')
                 | Some dirent \<Rightarrow>
                     Readdir_loop glfs_readdirplus fileInfoFromStat n (i + 1) stat'
                       (files @ [fileInfoFromStat stat' (direntName dirent)]) s')))
      else Some ((files, None), s))"

definition Readdir ::
  "('s, 'st) glfs_readdirplus \<Rightarrow> ('st \<Rightarrow> string \<Rightarrow> 'fi) \<Rightarrow> 'st \<Rightarrow> int \<Rightarrow> 's
     \<Rightarrow> (('fi list \<times> error option) \<times> 's) option" where
  "Readdir glfs_readdirplus fileInfoFromStat stat0 n s =
     Readdir_loop glfs_readdirplus fileInfoFromStat n 0 stat0 [] s"

subsection \<open>Runs of the service, and services with fixed answers\<close>

text \<open>
  The answers of the service to \<open>k\<close> successive calls of \<^verbatim>\<open>glfs_readdir\<close> from a
  state, and the state they leave. For \<^verbatim>\<open>glfs_readdirplus\<close> each call gets the
  attributes buffer as the call before left it.
\<close>

fun readdir_answers ::
  "'s glfs_readdir \<Rightarrow> nat \<Rightarrow> 's \<Rightarrow> (Dirent option \<times> int) list \<times> 's" where
  "readdir_answers g 0 s = ([], s)"
| "readdir_answers g (Suc k) s =
     (case g s of (r, s') \<Rightarrow>
        (case readdir_answers g k s' of (rs, s'') \<Rightarrow> (r # rs, s'')))"

fun readdirplus_answers ::
  "('s, 'st) glfs_readdirplus \<Rightarrow> nat \<Rightarrow> 'st \<Rightarrow> 's
     \<Rightarrow> (Dirent option \<times> 'st \<times> int) list \<times> 's" where
  "readdirplus_answers g 0 stat s = ([], s)"
| "readdirplus_answers g (Suc k) stat s =
     (case g stat s of ((d, stat', errno), s') \<Rightarrow>
        (case readdirplus_answers g k stat' s' of (rs, s'') \<Rightarrow>
           ((d, stat', errno) # rs, s'')))"

text \<open>
  Services for concrete runs: one that gives the same return code and errno to every
  request, and two that replay a list of answers and report the end of the directory
  (a null entry, errno 0) once the list is used up.
\<close>

definition answer_all :: "int \<Rightarrow> int \<Rightarrow> unit glfs" where
  "answer_all ret errno req t = ((ret, errno), t)"

definition replay_readdir :: "(Dirent option \<times> int) list glfs_readdir" where
  "replay_readdir s = (case s of [] \<Rightarrow> ((None, 0), []) | r # rs \<Rightarrow> (r, rs))"

definition replay_readdirplus ::
  "((Dirent option \<times> 'st \<times> int) list, 'st) glfs_readdirplus" where
  "replay_readdirplus stat s =
     (case s of [] \<Rightarrow> ((None, stat, 0), []) | r # rs \<Rightarrow> (r, rs))"

definition entry_a :: Dirent where
  "entry_a = \<lparr>Ino = 11, Off = 1, Reclen = 24, Type = 8, Name = 97 # replicate 255 0\<rparr>"

definition entry_b :: Dirent where
  "entry_b = \<lparr>Ino = 12, Off = 2, Reclen = 24, Type = 4, Name = 98 # replicate 255 0\<rparr>"

definition time_example :: Time where
  "time_example = \<lparr>wall_sec = 1700000000, wall_nsec = 123456789\<rparr>"

definition stat_example :: Stat where
  "stat_example =
     \<lparr>mask = 0, attributes = 0, attributesMask = 0,
      atime = time_example, btime = time_example, ctime = time_example, mtime = time_example,
      ino = 1, size = 0, blocks = 0, rdevMajor = 0, rdevMinor = 0, devMajor = 0, devMinor = 0,
      blkksize = 4096, nlink = 1, uid = 0, gid = 0, mode = 420\<rparr>"

section \<open>Theorems\<close>

subsection \<open>Decoding an entry name\<close>

lemma direntName_loop_eq:
  "direntName_loop i xs name = name @ take (256 - i) (takeWhile (\<lambda>c. c \<noteq> 0) xs)"
proof (induction xs arbitrary: i name)
  case Nil
  show ?case by simp
next
  case (Cons c cs)
  show ?case
  proof (cases "c = 0 \<or> i > 255")
    case True
    then show ?thesis by auto
  next
    case False
    then have "256 - i = Suc (256 - (i + 1))" by arith
    with False Cons.IH [of "i + 1" "name @ [c]"] show ?thesis by simp
  qed
qed

lemma takeWhile_take_all:
  "\<forall>c \<in> set (take n xs). P c \<Longrightarrow> take n (takeWhile P xs) = take n xs"
proof (induction xs arbitrary: n)
  case Nil
  show ?case by simp
next
  case (Cons x xs)
  show ?case
  proof (cases n)
    case 0
    then show ?thesis by simp
  next
    case (Suc m)
    with Cons.prems have "P x" and "\<forall>c \<in> set (take m xs). P c" by simp_all
    with Cons.IH [of m] Suc show ?thesis by simp
  qed
qed

lemma takeWhile_take_prefix:
  "take n (takeWhile P (take n xs)) = take n (takeWhile P xs)"
proof (induction xs arbitrary: n)
  case Nil
  show ?case by simp
next
  case (Cons x xs)
  show ?case
  proof (cases n)
    case 0
    then show ?thesis by simp
  next
    case (Suc m)
    with Cons.IH [of m] show ?thesis by simp
  qed
qed


text \<open>
  Claim C9. For every name buffer, \<^verbatim>\<open>direntName\<close> returns the bytes before the first
  null byte, and at most the first 256 of them. The bytes from index 256 on have no
  influence on the result. A buffer with no null byte among its first 256 bytes decodes to
  exactly these 256 bytes, and the bytes of "file.txt" followed by null padding up to 256
  bytes decode to "file.txt".
\<close>

theorem direntName_decodes:
  "direntName d = go_string (take 256 (takeWhile (\<lambda>c. c \<noteq> 0) (Name d)))
   \<and> direntName (d\<lparr>Name := take 256 (Name d)\<rparr>) = direntName d
   \<and> ((\<forall>c \<in> set (take 256 (Name d)). c \<noteq> 0) \<longrightarrow>
        direntName d = go_string (take 256 (Name d)))
   \<and> direntName (d\<lparr>Name := [102, 105, 108, 101, 46, 116, 120, 116] @ replicate 248 0\<rparr>)
        = ''file.txt''"
proof -
  have a: "\<And>e. direntName e = go_string (take 256 (takeWhile (\<lambda>c. c \<noteq> 0) (Name e)))"
    by (simp add: direntName_def direntName_loop_eq)
  have b: "direntName (d\<lparr>Name := take 256 (Name d)\<rparr>) = direntName d"
    by (simp add: a takeWhile_take_prefix)
  have c: "(\<forall>c \<in> set (take 256 (Name d)). c \<noteq> 0) \<longrightarrow>
        direntName d = go_string (take 256 (Name d))"
    by (simp add: a takeWhile_take_all)
  have d: "direntName (d\<lparr>Name := [102, 105, 108, 101, 46, 116, 120, 116] @ replicate 248 0\<rparr>)
        = ''file.txt''"
  proof -
    have "go_string [102, 105, 108, 101, 46, 116, 120, 116] = ''file.txt''"
      by code_simp
    then show ?thesis by (simp add: a)
  qed
  from a b c d show ?thesis by blast
qed

text \<open>A buffer of 256 bytes \<open>a\<close> with no terminator decodes to all 256 of them.\<close>

lemma char_of_97: "char_of (97 :: nat) = CHR ''a''"
  by code_simp

theorem direntName_decodes_witness:
  "direntName \<lparr>Ino = 1, Off = 0, Reclen = 280, Type = 8, Name = replicate 256 97\<rparr>
     = replicate 256 (CHR ''a'')"
  using direntName_decodes
    [of "\<lparr>Ino = 1, Off = 0, Reclen = 280, Type = 8, Name = replicate 256 97\<rparr>"]
  by (simp add: go_string_def char_of_97)

subsection \<open>Conversion of a Stat\<close>

text \<open>
  Claim C10. \<^verbatim>\<open>ToGlfsStat\<close> on a nil receiver returns nil, and only there: for a
  record it returns a native record. \<^verbatim>\<open>Fsync\<close> and \<^verbatim>\<open>Ftruncate\<close> hand such an
  absent record to the primitive as it is, in one call.
\<close>

theorem ToGlfsStat_nil:
  "ToGlfsStat None = None
   \<and> (ToGlfsStat s = None) = (s = None)
   \<and> fst (snd (Fsync (logged glfs) (ToGlfsStat None) (ToGlfsStat None) (log, t)))
       = log @ [Glfs_fsync None None]
   \<and> fst (snd (Ftruncate (logged glfs) sz (ToGlfsStat None) (ToGlfsStat None) (log, t)))
       = log @ [Glfs_ftruncate sz None None]"
  by (simp add: ToGlfsStat_def Fsync_def Ftruncate_def logged_def split: option.splits prod.splits)

text \<open>
  Claim C2. \<^verbatim>\<open>ToGlfsStat\<close> copies the seconds and nanoseconds of atime, btime and
  ctime into the native record, for every Stat. The native mtime is the zero timespec
  whatever the Stat's mtime is: for the Stat whose four timestamps are
  (1700000000, 123456789) the native atime reads back as that pair and the native mtime
  as (0, 0).
\<close>

theorem ToGlfsStat_drops_mtime:
  "map_option glfs_st_atime (ToGlfsStat (Some s))
     = Some \<lparr>tv_sec = Unix (atime s), tv_nsec = Nanosecond (atime s)\<rparr>
   \<and> map_option glfs_st_btime (ToGlfsStat (Some s))
     = Some \<lparr>tv_sec = Unix (btime s), tv_nsec = Nanosecond (btime s)\<rparr>
   \<and> map_option glfs_st_ctime (ToGlfsStat (Some s))
     = Some \<lparr>tv_sec = Unix (ctime s), tv_nsec = Nanosecond (ctime s)\<rparr>
   \<and> map_option glfs_st_mtime (ToGlfsStat (Some s)) = Some \<lparr>tv_sec = 0, tv_nsec = 0\<rparr>
   \<and> (Unix (mtime stat_example), Nanosecond (mtime stat_example)) = (1700000000, 123456789)
   \<and> map_option glfs_st_atime (ToGlfsStat (Some stat_example))
     = Some \<lparr>tv_sec = 1700000000, tv_nsec = 123456789\<rparr>
   \<and> map_option glfs_st_mtime (ToGlfsStat (Some stat_example))
     = Some \<lparr>tv_sec = 0, tv_nsec = 0\<rparr>"
  by (simp add: ToGlfsStat_def zero_timespec_def stat_example_def time_example_def Unix_def
      Nanosecond_def)

subsection \<open>Return codes and errors\<close>

lemma cgo_err_0 [simp]: "cgo_err 0 = None"
  by (simp add: cgo_err_def)

lemma cgo_err_nonzero: "e \<noteq> 0 \<Longrightarrow> cgo_err e = Some (Errno e)"
  by (simp add: cgo_err_def)

lemma slice_elem_addr_first:
  "slice_elem_addr b 0 = (if b = [] then Inl (IndexOutOfRange 0 0) else Inr (SliceElemAddr b 0))"
  by (simp add: slice_elem_addr_def)

text \<open>
  On every service, the five operations that do not test the return code return whatever
  cgo made of errno.
\<close>

lemma unguarded_return_errno:
  "fst (Fchmod glfs md t) = cgo_err (snd (fst (glfs (Glfs_fchmod md) t)))"
  "fst (Ftruncate glfs sz prestat poststat t)
     = cgo_err (snd (fst (glfs (Glfs_ftruncate sz prestat poststat) t)))"
  "b \<noteq> [] \<Longrightarrow> Pread glfs b off poststat t
     = Inr ((fst (fst (glfs (Glfs_pread (SliceElemAddr b 0) (length b) off 0 poststat) t)),
             cgo_err (snd (fst (glfs (Glfs_pread (SliceElemAddr b 0) (length b) off 0 poststat) t)))),
            snd (glfs (Glfs_pread (SliceElemAddr b 0) (length b) off 0 poststat) t))"
  "b \<noteq> [] \<Longrightarrow> Pwrite glfs b off prestat poststat t
     = Inr ((fst (fst (glfs (Glfs_pwrite (SliceElemAddr b 0) (length b) off 0 prestat poststat) t)),
             cgo_err (snd (fst (glfs (Glfs_pwrite (SliceElemAddr b 0) (length b) off 0 prestat poststat) t)))),
            snd (glfs (Glfs_pwrite (SliceElemAddr b 0) (length b) off 0 prestat poststat) t))"
  "snd (fst (lseek glfs offset whence t))
     = cgo_err (snd (fst (glfs (Glfs_lseek offset (ucast whence)) t)))"
  by (simp_all add: Fchmod_def Ftruncate_def Pread_def Pwrite_def lseek_def
      slice_elem_addr_first split: prod.splits)

text \<open>
  Claim C1. \<^verbatim>\<open>Fchmod\<close>, \<^verbatim>\<open>Ftruncate\<close>, \<^verbatim>\<open>Pread\<close>, \<^verbatim>\<open>Pwrite\<close> and \<^verbatim>\<open>lseek\<close>
  return the error cgo made of errno without looking at the return code. On a service
  whose primitives succeed (return code 0, or 3 bytes transferred) and leave errno at 2,
  each of the five returns the error \<^verbatim>\<open>Errno(2)\<close>, while \<^verbatim>\<open>Fstat\<close> and \<^verbatim>\<open>Fsync\<close>,
  which test the return code, return nil on the same service.
\<close>

theorem unguarded_error_on_success:
  "fst (Fchmod (answer_all 0 2) 420 ()) = Some (Errno 2)
   \<and> fst (Ftruncate (answer_all 0 2) 0 None None ()) = Some (Errno 2)
   \<and> Pread (answer_all 3 2) [0, 0, 0] 0 None () = Inr ((3, Some (Errno 2)), ())
   \<and> Pwrite (answer_all 3 2) [1, 2, 3] 0 None None () = Inr ((3, Some (Errno 2)), ())
   \<and> lseek (answer_all 0 2) 0 0 () = ((0, Some (Errno 2)), ())
   \<and> fst (Fstat (answer_all 0 2) ()) = None
   \<and> fst (Fsync (answer_all 0 2) None None ()) = None"
  by (simp add: Fchmod_def Ftruncate_def Pread_def Pwrite_def lseek_def Fstat_def Fsync_def
      answer_all_def cgo_err_def slice_elem_addr_def)

text \<open>
  Claim C7. Whatever the service answers to the one request of \<^verbatim>\<open>Read\<close> or
  \<^verbatim>\<open>Write\<close>, the operation returns the return code \<open>n\<close> as it is, with a nil error
  when \<open>n\<close> is not negative (0 included, whatever errno holds) and with the error cgo
  made of errno when \<open>n\<close> is negative.
\<close>

theorem Read_Write_error_iff_negative:
  "(glfs (Glfs_read (if b = [] then ZeroVarAddr else SliceElemAddr b 0) (length b) 0) t
       = ((n, errno), t') \<longrightarrow>
      Read glfs b t = Inr ((n, if n < 0 then cgo_err errno else None), t'))
   \<and> (glfs (Glfs_write (if b = [] then ZeroVarAddr else SliceElemAddr b 0) (length b) 0) t
       = ((n, errno), t') \<longrightarrow>
      Write glfs b t = Inr ((n, if n < 0 then cgo_err errno else None), t'))"
  by (simp add: Read_def Write_def slice_elem_addr_def)

text \<open>
  Return codes 0 and 2 with errno left at 11 give a nil error; return code -1 with errno
  9 or 28 gives that error.
\<close>

theorem Read_Write_error_iff_negative_witness:
  "Read (answer_all 0 11) [0, 0] () = Inr ((0, None), ())
   \<and> Write (answer_all 2 11) [7, 8] () = Inr ((2, None), ())
   \<and> Read (answer_all (- 1) 9) [] () = Inr ((- 1, Some (Errno 9)), ())
   \<and> Write (answer_all (- 1) 28) [7] () = Inr ((- 1, Some (Errno 28)), ())"
  using Read_Write_error_iff_negative [of "answer_all 0 11" "[0, 0]" "()" 0 11 "()"]
    Read_Write_error_iff_negative [of "answer_all 2 11" "[7, 8]" "()" 2 11 "()"]
    Read_Write_error_iff_negative [of "answer_all (- 1) 9" "[]" "()" "- 1" 9 "()"]
    Read_Write_error_iff_negative [of "answer_all (- 1) 28" "[7]" "()" "- 1" 28 "()"]
  by (simp add: answer_all_def cgo_err_def)

text \<open>
  Claim C4. For every buffer, \<^verbatim>\<open>Read\<close> and \<^verbatim>\<open>Write\<close> do not panic and send the
  service exactly one request, with the length of the buffer: the log of the service grows
  by that request and its state is the one this request leaves. For a buffer of length 0
  the request is still sent: it carries the address of \<^verbatim>\<open>_zero\<close> and the length 0.
\<close>

theorem Read_Write_one_call:
  "(\<exists>r. Read (logged glfs) b (log, t)
       = Inr (r, (log @ [Glfs_read (if b = [] then ZeroVarAddr else SliceElemAddr b 0) (length b) 0],
                  snd (glfs (Glfs_read (if b = [] then ZeroVarAddr else SliceElemAddr b 0)
                         (length b) 0) t))))
   \<and> (\<exists>r. Write (logged glfs) b (log, t)
       = Inr (r, (log @ [Glfs_write (if b = [] then ZeroVarAddr else SliceElemAddr b 0) (length b) 0],
                  snd (glfs (Glfs_write (if b = [] then ZeroVarAddr else SliceElemAddr b 0)
                         (length b) 0) t))))
   \<and> (\<exists>r. Read (logged glfs) [] (log, t)
       = Inr (r, (log @ [Glfs_read ZeroVarAddr 0 0], snd (glfs (Glfs_read ZeroVarAddr 0 0) t))))
   \<and> (\<exists>r. Write (logged glfs) [] (log, t)
       = Inr (r, (log @ [Glfs_write ZeroVarAddr 0 0], snd (glfs (Glfs_write ZeroVarAddr 0 0) t))))"
  by (simp add: Read_def Write_def logged_def slice_elem_addr_def Let_def split: prod.splits)

text \<open>
  Claim C5. When the primitive of \<^verbatim>\<open>Fallocate\<close>, \<^verbatim>\<open>Fsetxattr\<close> (on a value that is
  not empty, so that the primitive is called) or \<^verbatim>\<open>Fremovexattr\<close> returns 0, the
  operation returns a nil error, whatever errno holds after the call.
\<close>

theorem zero_return_discards_error:
  "(glfs (Glfs_fallocate (ucast md) offset len) t = ((0, errno), t') \<longrightarrow>
      Fallocate glfs md offset len t = (None, t'))
   \<and> (data \<noteq> [] \<and>
       glfs (Glfs_fsetxattr attr (SliceElemAddr data 0) (length data) (ucast flags)) t
         = ((0, errno), t') \<longrightarrow>
      Fsetxattr glfs attr data flags t = Inr (None, t'))
   \<and> (glfs (Glfs_fremovexattr attr) t = ((0, errno), t') \<longrightarrow>
      Fremovexattr glfs attr t = (None, t'))"
  by (simp add: Fallocate_def Fsetxattr_def Fremovexattr_def slice_elem_addr_def)

text \<open>Return code 0 with errno left at 17: all three return nil.\<close>

theorem zero_return_discards_error_witness:
  "Fallocate (answer_all 0 17) 0 0 4096 () = (None, ())
   \<and> Fsetxattr (answer_all 0 17) ''user.k'' [118] 0 () = Inr (None, ())
   \<and> Fremovexattr (answer_all 0 17) ''user.k'' () = (None, ())"
  using zero_return_discards_error [of "answer_all 0 17" 0 0 4096 "()" 17 "()" "[118]" "''user.k''" 0]
  by (simp add: answer_all_def)

text \<open>
  Claim C6. \<^verbatim>\<open>Fgetxattr\<close> with a destination of length 0 sends one request with the null
  pointer and the length 0. For every destination, a return code that is not negative is
  returned with a nil error, and a negative one is returned as it is with the error cgo
  made of errno, which is \<^verbatim>\<open>Errno(errno)\<close>, not nil, when the primitive has set errno
  (as the primitives do when they fail).
\<close>

theorem Fgetxattr_size_query:
  "(\<exists>r t'. Fgetxattr (logged glfs) attr [] (log, t)
       = Inr (r, (log @ [Glfs_fgetxattr attr NilPtr 0], t')))
   \<and> (glfs (Glfs_fgetxattr attr (if dest = [] then NilPtr else SliceElemAddr dest 0) (length dest)) t
         = ((ret, errno), t') \<longrightarrow>
        (0 \<le> ret \<longrightarrow> Fgetxattr glfs attr dest t = Inr ((ret, None), t'))
        \<and> (ret < 0 \<longrightarrow> Fgetxattr glfs attr dest t = Inr ((ret, cgo_err errno), t'))
        \<and> (ret < 0 \<and> errno \<noteq> 0 \<longrightarrow>
             Fgetxattr glfs attr dest t = Inr ((ret, Some (Errno errno)), t')))"
  by (auto simp add: Fgetxattr_def logged_def slice_elem_addr_def cgo_err_def split: prod.splits)

text \<open>
  A size query answered with 5, a fetch answered with 5 while errno is left at 34, and a
  query that fails with -1 and errno 61.
\<close>

theorem Fgetxattr_size_query_witness:
  "Fgetxattr (answer_all 5 0) ''user.k'' [] () = Inr ((5, None), ())
   \<and> Fgetxattr (answer_all 5 34) ''user.k'' [0, 0] () = Inr ((5, None), ())
   \<and> Fgetxattr (answer_all (- 1) 61) ''user.k'' [] () = Inr ((- 1, Some (Errno 61)), ())"
  using Fgetxattr_size_query [of "answer_all 5 0" "''user.k''" "[]" "()" "[]" 5 0 "()"]
    Fgetxattr_size_query [of "answer_all 5 34" "''user.k''" "[]" "()" "[0, 0]" 5 34 "()"]
    Fgetxattr_size_query [of "answer_all (- 1) 61" "''user.k''" "[]" "()" "[]" "- 1" 61 "()"]
  by (simp add: answer_all_def cgo_err_def)

text \<open>
  Claim C8. When the buffer of \<^verbatim>\<open>Pread\<close> and \<^verbatim>\<open>Pwrite\<close> and the value of
  \<^verbatim>\<open>Fsetxattr\<close> are not empty, the address of the first byte is taken within bounds
  and the operation does not panic. On an empty slice each of the three panics with an
  index out of range, before the primitive is called: nothing guards the access.
\<close>

theorem first_byte_in_bounds:
  "(b \<noteq> [] \<longrightarrow>
      slice_elem_addr b 0 = Inr (SliceElemAddr b 0)
      \<and> (\<exists>r. Pread glfs b off poststat t = Inr r)
      \<and> (\<exists>r. Pwrite glfs b off prestat poststat t = Inr r)
      \<and> (\<exists>r. Fsetxattr glfs attr b flags t = Inr r))
   \<and> Pread glfs [] off poststat t = Inl (IndexOutOfRange 0 0)
   \<and> Pwrite glfs [] off prestat poststat t = Inl (IndexOutOfRange 0 0)
   \<and> Fsetxattr glfs attr [] flags t = Inl (IndexOutOfRange 0 0)"
  by (simp add: Pread_def Pwrite_def Fsetxattr_def slice_elem_addr_def Let_def split: prod.splits)

theorem first_byte_in_bounds_witness:
  "slice_elem_addr [5] 0 = Inr (SliceElemAddr [5] 0)
   \<and> (\<exists>r. Pread (answer_all 1 0) [5] 0 None () = Inr r)
   \<and> (\<exists>r. Pwrite (answer_all 1 0) [5] 0 None None () = Inr r)
   \<and> (\<exists>r. Fsetxattr (answer_all 0 0) ''user.k'' [5] 0 () = Inr r)"
  using first_byte_in_bounds [of "[5]" "answer_all 1 0" 0 None "()" None "''user.k''" 0]
    first_byte_in_bounds [of "[5]" "answer_all 0 0" 0 None "()" None "''user.k''" 0]
  by simp

subsection \<open>Enumerating a directory\<close>

lemma Readdirnames_loop_all:
  assumes "readdir_answers g (Suc (length ds)) s = (map (\<lambda>d. (Some d, 0)) ds @ [(None, 0)], s')"
    and "n = 0 \<or> i + int (length ds) < n"
  shows "Readdirnames_loop g n i names s = Some ((names @ map direntName ds, None), s')"
  using assms
proof (induction ds arbitrary: i names s)
  case Nil
  then have "g s = ((None, 0), s')"
    by (simp split: prod.splits)
  with Nil.prems(2) show ?case
    by (subst Readdirnames_loop.simps) auto
next
  case (Cons d ds)
  obtain r s1 where g: "g s = (r, s1)" by (cases "g s")
  with Cons.prems(1) have r: "r = (Some d, 0)"
    and rest: "readdir_answers g (Suc (length ds)) s1 = (map (\<lambda>d. (Some d, 0)) ds @ [(None, 0)], s')"
    by (auto split: prod.splits)
  from Cons.prems(2) have cond: "n = 0 \<or> i < n" and cond': "n = 0 \<or> (i + 1) + int (length ds) < n"
    by auto
  have "Readdirnames_loop g n i names s = Readdirnames_loop g n (i + 1) (names @ [direntName d]) s1"
    using cond g r by (subst Readdirnames_loop.simps) auto
  also have "\<dots> = Some (((names @ [direntName d]) @ map direntName ds, None), s')"
    by (rule Cons.IH [OF rest cond'])
  finally show ?case by simp
qed

lemma Readdirnames_loop_error:
  assumes "readdir_answers g (Suc (length ds)) s = (map (\<lambda>d. (Some d, 0)) ds @ [(d', e)], s')"
    and "e \<noteq> 0"
    and "n = 0 \<or> i + int (length ds) < n"
  shows "Readdirnames_loop g n i names s = Some (([], Some (Errno e)), s')"
  using assms
proof (induction ds arbitrary: i names s)
  case Nil
  then have "g s = ((d', e), s')"
    by (simp split: prod.splits)
  with Nil.prems(2,3) show ?case
    by (subst Readdirnames_loop.simps) (auto simp: cgo_err_nonzero)
next
  case (Cons d ds)
  obtain r s1 where g: "g s = (r, s1)" by (cases "g s")
  with Cons.prems(1) have r: "r = (Some d, 0)"
    and rest: "readdir_answers g (Suc (length ds)) s1 = (map (\<lambda>d. (Some d, 0)) ds @ [(d', e)], s')"
    by (auto split: prod.splits)
  from Cons.prems(3) have cond: "n = 0 \<or> i < n" and cond': "n = 0 \<or> (i + 1) + int (length ds) < n"
    by auto
  have "Readdirnames_loop g n i names s = Readdirnames_loop g n (i + 1) (names @ [direntName d]) s1"
    using cond g r by (subst Readdirnames_loop.simps) auto
  also have "\<dots> = Some (([], Some (Errno e)), s')"
    by (rule Cons.IH [OF rest Cons.prems(2) cond'])
  finally show ?case .
qed

lemma Readdirnames_loop_bounded:
  assumes "n \<noteq> 0"
  shows "\<exists>names' err s'. Readdirnames_loop g n i names s = Some ((names', err), s')
           \<and> int (length names') \<le> int (length names) + max 0 (n - i)"
  using assms
proof (induction "nat (n - i)" arbitrary: i names s)
  case 0
  then have "\<not> (n = 0 \<or> i < n)" by auto
  then have "Readdirnames_loop g n i names s = Some ((names, None), s)"
    by (subst Readdirnames_loop.simps) simp
  then show ?case by auto
next
  case (Suc k)
  then have lt: "i < n" and k: "k = nat (n - (i + 1))" by auto
  obtain d e s1 where g: "g s = ((d, e), s1)" by (cases "g s") auto
  show ?case
  proof (cases "cgo_err e")
    case (Some err)
    with lt g have "Readdirnames_loop g n i names s = Some (([], Some err), s1)"
      by (subst Readdirnames_loop.simps) simp
    then show ?thesis by auto
  next
    case None
    show ?thesis
    proof (cases d)
      case dNone: None
      with None lt g have "Readdirnames_loop g n i names s = Some ((names, None), s1)"
        by (subst Readdirnames_loop.simps) simp
      then show ?thesis by auto
    next
      case (Some dirent)
      with None lt g have step: "Readdirnames_loop g n i names s
          = Readdirnames_loop g n (i + 1) (names @ [direntName dirent]) s1"
        by (subst Readdirnames_loop.simps) simp
      from Suc.hyps(1) [OF k Suc.prems, of "names @ [direntName dirent]" s1]
      obtain names' err s' where
        "Readdirnames_loop g n (i + 1) (names @ [direntName dirent]) s1 = Some ((names', err), s')"
        and "int (length names') \<le> int (length (names @ [direntName dirent])) + max 0 (n - (i + 1))"
        by blast
      with step lt show ?thesis by auto
    qed
  qed
qed

lemma Readdir_loop_all:
  assumes "readdirplus_answers g (Suc (length es)) stat s
             = (map (\<lambda>(d, st). (Some d, st, 0)) es @ [(None, st', 0)], s')"
    and "n = 0 \<or> i + int (length es) < n"
  shows "Readdir_loop g fi n i stat files s
           = Some ((files @ map (\<lambda>(d, st). fi st (direntName d)) es, None), s')"
  using assms
proof (induction es arbitrary: i files stat s)
  case Nil
  then have "g stat s = ((None, st', 0), s')"
    by (simp split: prod.splits)
  with Nil.prems(2) show ?case
    by (subst Readdir_loop.simps) auto
next
  case (Cons x es)
  obtain d st where x: "x = (d, st)" by (cases x)
  obtain r s1 where g: "g stat s = (r, s1)" by (cases "g stat s")
  with Cons.prems(1) x have r: "r = (Some d, st, 0)"
    and rest: "readdirplus_answers g (Suc (length es)) st s1
                 = (map (\<lambda>(d, st). (Some d, st, 0)) es @ [(None, st', 0)], s')"
    by (auto split: prod.splits)
  from Cons.prems(2) have cond: "n = 0 \<or> i < n" and cond': "n = 0 \<or> (i + 1) + int (length es) < n"
    by auto
  have "Readdir_loop g fi n i stat files s
          = Readdir_loop g fi n (i + 1) st (files @ [fi st (direntName d)]) s1"
    using cond g r by (subst Readdir_loop.simps) auto
  also have "\<dots> = Some (((files @ [fi st (direntName d)]) @ map (\<lambda>(d, st). fi st (direntName d)) es, None), s')"
    by (rule Cons.IH [OF rest cond'])
  finally show ?case using x by simp
qed

lemma Readdir_loop_error:
  assumes "readdirplus_answers g (Suc (length es)) stat s
             = (map (\<lambda>(d, st). (Some d, st, 0)) es @ [(d', st', e)], s')"
    and "e \<noteq> 0"
    and "n = 0 \<or> i + int (length es) < n"
  shows "Readdir_loop g fi n i stat files s = Some (([], Some (Errno e)), s')"
  using assms
proof (induction es arbitrary: i files stat s)
  case Nil
  then have "g stat s = ((d', st', e), s')"
    by (simp split: prod.splits)
  with Nil.prems(2,3) show ?case
    by (subst Readdir_loop.simps) (auto simp: cgo_err_nonzero)
next
  case (Cons x es)
  obtain d st where x: "x = (d, st)" by (cases x)
  obtain r s1 where g: "g stat s = (r, s1)" by (cases "g stat s")
  with Cons.prems(1) x have r: "r = (Some d, st, 0)"
    and rest: "readdirplus_answers g (Suc (length es)) st s1
                 = (map (\<lambda>(d, st). (Some d, st, 0)) es @ [(d', st', e)], s')"
    by (auto split: prod.splits)
  from Cons.prems(3) have cond: "n = 0 \<or> i < n" and cond': "n = 0 \<or> (i + 1) + int (length es) < n"
    by auto
  have "Readdir_loop g fi n i stat files s
          = Readdir_loop g fi n (i + 1) st (files @ [fi st (direntName d)]) s1"
    using cond g r by (subst Readdir_loop.simps) auto
  also have "\<dots> = Some (([], Some (Errno e)), s')"
    by (rule Cons.IH [OF rest Cons.prems(2) cond'])
  finally show ?case .
qed

lemma Readdir_loop_bounded:
  assumes "n \<noteq> 0"
  shows "\<exists>files' err s'. Readdir_loop g fi n i stat files s = Some ((files', err), s')
           \<and> int (length files') \<le> int (length files) + max 0 (n - i)"
  using assms
proof (induction "nat (n - i)" arbitrary: i files stat s)
  case 0
  then have "\<not> (n = 0 \<or> i < n)" by auto
  then have "Readdir_loop g fi n i stat files s = Some ((files, None), s)"
    by (subst Readdir_loop.simps) simp
  then show ?case by auto
next
  case (Suc k)
  then have lt: "i < n" and k: "k = nat (n - (i + 1))" by auto
  obtain d st e s1 where g: "g stat s = ((d, st, e), s1)" by (cases "g stat s") auto
  show ?case
  proof (cases "cgo_err e")
    case (Some err)
    with lt g have "Readdir_loop g fi n i stat files s = Some (([], Some err), s1)"
      by (subst Readdir_loop.simps) simp
    then show ?thesis by auto
  next
    case None
    show ?thesis
    proof (cases d)
      case dNone: None
      with None lt g have "Readdir_loop g fi n i stat files s = Some ((files, None), s1)"
        by (subst Readdir_loop.simps) simp
      then show ?thesis by auto
    next
      case (Some dirent)
      with None lt g have step: "Readdir_loop g fi n i stat files s
          = Readdir_loop g fi n (i + 1) st (files @ [fi st (direntName dirent)]) s1"
        by (subst Readdir_loop.simps) simp
      from Suc.hyps(1) [OF k Suc.prems, of st "files @ [fi st (direntName dirent)]" s1]
      obtain files' err s' where
        "Readdir_loop g fi n (i + 1) st (files @ [fi st (direntName dirent)]) s1
           = Some ((files', err), s')"
        and "int (length files') \<le> int (length (files @ [fi st (direntName dirent)])) + max 0 (n - (i + 1))"
        by blast
      with step lt show ?thesis by auto
    qed
  qed
qed

text \<open>
  Claim C3. With \<open>n = 0\<close>, when the service answers with the entries \<open>ds\<close> and then
  with a null entry, all without error, \<^verbatim>\<open>Readdirnames\<close> returns the names of all of
  \<open>ds\<close> in that order and a nil error, and has made exactly these calls. With
  \<open>n > 0\<close> it always returns, with at most \<open>n\<close> names. When a call of the primitive
  leaves an error after some entries, and the loop gets that far, the result is the empty
  list and that error. \<^verbatim>\<open>Readdir\<close> does the same with the entries built by
  \<^verbatim>\<open>fileInfoFromStat\<close>.
\<close>

theorem Readdir_Readdirnames_enumerate:
  "(readdir_answers g (Suc (length ds)) s = (map (\<lambda>d. (Some d, 0)) ds @ [(None, 0)], s') \<longrightarrow>
      Readdirnames g 0 s = Some ((map direntName ds, None), s'))
   \<and> (0 < n \<longrightarrow>
        (\<exists>names err s''. Readdirnames g n s = Some ((names, err), s'') \<and> int (length names) \<le> n))
   \<and> (readdir_answers g (Suc (length ds)) s = (map (\<lambda>d. (Some d, 0)) ds @ [(d', e)], s')
        \<and> e \<noteq> 0 \<and> (n = 0 \<or> int (length ds) < n) \<longrightarrow>
        Readdirnames g n s = Some (([], Some (Errno e)), s'))
   \<and> (readdirplus_answers gp (Suc (length es)) stat0 t
         = (map (\<lambda>(d, st). (Some d, st, 0)) es @ [(None, st', 0)], t') \<longrightarrow>
        Readdir gp fi stat0 0 t = Some ((map (\<lambda>(d, st). fi st (direntName d)) es, None), t'))
   \<and> (0 < n \<longrightarrow>
        (\<exists>files err t''. Readdir gp fi stat0 n t = Some ((files, err), t'') \<and> int (length files) \<le> n))
   \<and> (readdirplus_answers gp (Suc (length es)) stat0 t
         = (map (\<lambda>(d, st). (Some d, st, 0)) es @ [(d', st', e)], t')
        \<and> e \<noteq> 0 \<and> (n = 0 \<or> int (length es) < n) \<longrightarrow>
        Readdir gp fi stat0 n t = Some (([], Some (Errno e)), t'))"
proof (intro conjI impI)
  assume "readdir_answers g (Suc (length ds)) s = (map (\<lambda>d. (Some d, 0)) ds @ [(None, 0)], s')"
  from Readdirnames_loop_all [OF this, of 0 0 "[]"]
  show "Readdirnames g 0 s = Some ((map direntName ds, None), s')"
    by (simp add: Readdirnames_def)
next
  assume "0 < n"
  with Readdirnames_loop_bounded [of n g 0 "[]" s]
  show "\<exists>names err s''. Readdirnames g n s = Some ((names, err), s'') \<and> int (length names) \<le> n"
    by (simp add: Readdirnames_def)
next
  assume "readdir_answers g (Suc (length ds)) s = (map (\<lambda>d. (Some d, 0)) ds @ [(d', e)], s')
        \<and> e \<noteq> 0 \<and> (n = 0 \<or> int (length ds) < n)"
  with Readdirnames_loop_error [of g ds s d' e s' n 0 "[]"]
  show "Readdirnames g n s = Some (([], Some (Errno e)), s')"
    by (simp add: Readdirnames_def)
next
  assume "readdirplus_answers gp (Suc (length es)) stat0 t
         = (map (\<lambda>(d, st). (Some d, st, 0)) es @ [(None, st', 0)], t')"
  from Readdir_loop_all [OF this, of 0 0 fi "[]"]
  show "Readdir gp fi stat0 0 t = Some ((map (\<lambda>(d, st). fi st (direntName d)) es, None), t')"
    by (simp add: Readdir_def)
next
  assume "0 < n"
  with Readdir_loop_bounded [of n gp fi 0 stat0 "[]" t]
  show "\<exists>files err t''. Readdir gp fi stat0 n t = Some ((files, err), t'') \<and> int (length files) \<le> n"
    by (simp add: Readdir_def)
next
  assume "readdirplus_answers gp (Suc (length es)) stat0 t
         = (map (\<lambda>(d, st). (Some d, st, 0)) es @ [(d', st', e)], t')
        \<and> e \<noteq> 0 \<and> (n = 0 \<or> int (length es) < n)"
  with Readdir_loop_error [of gp es stat0 t d' st' e t' n 0 fi "[]"]
  show "Readdir gp fi stat0 n t = Some (([], Some (Errno e)), t')"
    by (simp add: Readdir_def)
qed

text \<open>
  Two entries and then the end of the directory; a limit of 1; an error at the second call.
\<close>

theorem Readdir_Readdirnames_enumerate_witness:
  "Readdirnames replay_readdir 0 [(Some entry_a, 0), (Some entry_b, 0)]
     = Some (([direntName entry_a, direntName entry_b], None), [])
   \<and> (\<exists>names err s''.
         Readdirnames replay_readdir 1 [(Some entry_a, 0), (Some entry_b, 0)]
           = Some ((names, err), s'') \<and> int (length names) \<le> 1)
   \<and> Readdirnames replay_readdir 0 [(Some entry_a, 0), (Some entry_b, 5), (Some entry_a, 0)]
       = Some (([], Some (Errno 5)), [(Some entry_a, 0)])
   \<and> Readdir replay_readdirplus Pair (0 :: nat) 0 [(Some entry_a, 7, 0), (Some entry_b, 8, 0)]
       = Some (([(7, direntName entry_a), (8, direntName entry_b)], None), [])
   \<and> (\<exists>files err t''.
         Readdir replay_readdirplus Pair (0 :: nat) 1 [(Some entry_a, 7, 0), (Some entry_b, 8, 0)]
           = Some ((files, err), t'') \<and> int (length files) \<le> 1)
   \<and> Readdir replay_readdirplus Pair (0 :: nat) 0
         [(Some entry_a, 7, 0), (Some entry_b, 8, 5), (Some entry_a, 9, 0)]
       = Some (([], Some (Errno 5)), [(Some entry_a, 9, 0)])"
  using
    Readdir_Readdirnames_enumerate [of replay_readdir "[entry_a, entry_b]"
      "[(Some entry_a, 0), (Some entry_b, 0)]" "[]" 1 "None" 0
      replay_readdirplus "[(entry_a, 7), (entry_b, 8)]" "0 :: nat"
      "[(Some entry_a, 7, 0), (Some entry_b, 8, 0)]" 8 "[]" Pair]
    Readdir_Readdirnames_enumerate [of replay_readdir "[entry_a]"
      "[(Some entry_a, 0), (Some entry_b, 5), (Some entry_a, 0)]" "[(Some entry_a, 0)]" 0
      "Some entry_b" 5
      replay_readdirplus "[(entry_a, 7)]" "0 :: nat"
      "[(Some entry_a, 7, 0), (Some entry_b, 8, 5), (Some entry_a, 9, 0)]" 8 "[(Some entry_a, 9, 0)]" Pair]
  by (simp add: replay_readdir_def replay_readdirplus_def)

end
